theory Spec2Isabelle
  imports Main "HOL-Library.Word"
begin

section \<open>The SQS input dispatcher (inputs/sqs/pool.go)\<close>

subsection \<open>Strings\<close>

text \<open>
  Go strings and byte slices are byte sequences: \<^typ>\<open>string\<close>. The three calls of package
  \<^verbatim>\<open>strings\<close> that \<^verbatim>\<open>deliver\<close> makes are modelled below.
\<close>

definition dquote :: char where
  "dquote = CHR 0x22"

definition backslash :: char where
  "backslash = CHR 0x5C"

text \<open>
  \<^verbatim>\<open>strings.Replace(s, "\\\"", "\"", -1)\<close>: every non-overlapping occurrence of the two
  bytes backslash, double quote, scanning from the left, becomes a double quote.
\<close>

fun Replace_escaped_quotes :: "string \<Rightarrow> string" where
  "Replace_escaped_quotes (a # b # s) =
     (if a = backslash \<and> b = dquote then dquote # Replace_escaped_quotes s
      else a # Replace_escaped_quotes (b # s))"
| "Replace_escaped_quotes s = s"

text \<open>\<^verbatim>\<open>strings.TrimPrefix\<close> and \<^verbatim>\<open>strings.TrimSuffix\<close>: at most one occurrence is cut.\<close>

definition TrimPrefix :: "string \<Rightarrow> string \<Rightarrow> string" where
  "TrimPrefix s pre = (if take (length pre) s = pre then drop (length pre) s else s)"

definition TrimSuffix :: "string \<Rightarrow> string \<Rightarrow> string" where
  "TrimSuffix s suf =
     (if length suf \<le> length s \<and> drop (length s - length suf) s = suf
      then take (length s - length suf) s else s)"

subsection \<open>The JSON dependency\<close>

text \<open>
  \<^verbatim>\<open>gabs.ParseJSON\<close> decodes the body with \<^verbatim>\<open>encoding/json\<close> into Go's generic JSON
  values. Both packages are dependencies, outside the repository; the decoded value is
  an input of the model and the few operations \<^verbatim>\<open>deliver\<close> calls on it are written out
  after gabs v1 (import path \<^verbatim>\<open>github.com/Jeffail/gabs\<close>).
  A number carries the text \<^verbatim>\<open>json.Marshal\<close> prints for it; an object is the list of its
  members in the order \<^verbatim>\<open>json.Marshal\<close> prints them (sorted by key, keys distinct).
  The releases of gabs differ on a member that is null and on an array at the top, and
  \<^verbatim>\<open>json.Marshal\<close> has more escapes than the bytes modelled here (the line separators
  U+2028 and U+2029, invalid UTF-8); no statement below is about these cases.
\<close>

datatype json =
    JNull
  | JBool bool
  | JNumber string
  | JString string
  | JArray "json list"
  | JObject "(string \<times> json) list"

definition hexdigit :: "nat \<Rightarrow> char" where
  "hexdigit n = (''0123456789abcdef'') ! (n mod 16)"

text \<open>
  The string escaping of \<^verbatim>\<open>json.Marshal\<close> (HTML-safe mode) on single bytes: quote and
  backslash get a backslash; newline, carriage return and tab their letter; other
  control bytes and \<^verbatim>\<open><\<close>, \<^verbatim>\<open>>\<close>, \<^verbatim>\<open>&\<close> a \<^verbatim>\<open>\u00XX\<close>; everything else is copied.
\<close>

definition escape_byte :: "char \<Rightarrow> string" where
  "escape_byte c =
     (if c = dquote \<or> c = backslash then [backslash, c]
      else if c = CHR 0x0A then [backslash, CHR ''n'']
      else if c = CHR 0x0D then [backslash, CHR ''r'']
      else if c = CHR 0x09 then [backslash, CHR ''t'']
      else if (of_char c :: nat) < 0x20 \<or> c = CHR ''<'' \<or> c = CHR ''>'' \<or> c = CHR ''&''
        then [backslash, CHR ''u'', CHR ''0'', CHR ''0'',
              hexdigit ((of_char c :: nat) div 16), hexdigit (of_char c)]
      else [c])"

definition quoted :: "string \<Rightarrow> string" where
  "quoted s = dquote # concat (map escape_byte s) @ [dquote]"

fun join_comma :: "string list \<Rightarrow> string" where
  "join_comma [] = []"
| "join_comma [x] = x"
| "join_comma (x # y # ys) = x @ '','' @ join_comma (y # ys)"

fun json_Marshal :: "json \<Rightarrow> string" where
  "json_Marshal JNull = ''null''"
| "json_Marshal (JBool b) = (if b then ''true'' else ''false'')"
| "json_Marshal (JNumber n) = n"
| "json_Marshal (JString s) = quoted s"
| "json_Marshal (JArray xs) = ''['' @ join_comma (map json_Marshal xs) @ '']''"
| "json_Marshal (JObject kvs) =
     ''{'' @ join_comma (map (\<lambda>kv. quoted (fst kv) @ '':'' @ json_Marshal (snd kv)) kvs) @ ''}''"

text \<open>
  \<^verbatim>\<open>Container.Search\<close> for a path of one key. \<^const>\<open>None\<close> is the nil container. On an
  object the member is looked up; on an array every element is searched and the hits
  are collected into an array; on any other value the search fails.
\<close>

fun gabs_Search :: "json \<Rightarrow> string \<Rightarrow> json option" where
  "gabs_Search (JObject kvs) key = map_of kvs key"
| "gabs_Search (JArray xs) key =
     (let tmpArray = concat (map (\<lambda>val. case gabs_Search val key of None \<Rightarrow> [] | Some res \<Rightarrow> [res]) xs)
      in if tmpArray = [] then None else Some (JArray tmpArray))"
| "gabs_Search _ key = None"

definition gabs_Exists :: "json \<Rightarrow> string \<Rightarrow> bool" where
  "gabs_Exists g key = (gabs_Search g key \<noteq> None)"

text \<open>
  \<^verbatim>\<open>Container.String\<close>: the JSON text of the held value, \<^verbatim>\<open>{}\<close> for a nil container or
  a JSON null.
\<close>

definition gabs_String :: "json option \<Rightarrow> string" where
  "gabs_String c =
     (case c of None \<Rightarrow> ''{}'' | Some JNull \<Rightarrow> ''{}'' | Some v \<Rightarrow> json_Marshal v)"

text \<open>
  Lines 182 to 188 of \<^verbatim>\<open>deliver\<close>: the envelope unwrap. \<open>parsed\<close> is what
  \<^verbatim>\<open>gabs.ParseJSON(m.B)\<close> returns, \<^const>\<open>None\<close> when it returns an error.
\<close>

definition unwrap_body :: "string \<Rightarrow> json option \<Rightarrow> string" where
  "unwrap_body B parsed =
     (case parsed of
        None \<Rightarrow> B
      | Some jsonParsed \<Rightarrow>
          if gabs_Exists jsonParsed ''Message'' then
            (let s = Replace_escaped_quotes (gabs_String (gabs_Search jsonParsed ''Message''));
                 s = TrimPrefix s [dquote];
                 s = TrimSuffix s [dquote]
             in s)
          else B)"

subsection \<open>Integers from text\<close>

text \<open>
  \<^verbatim>\<open>strconv.ParseInt(s, 10, 64)\<close>, and \<^verbatim>\<open>strconv.Atoi\<close> on a 64-bit platform: an optional
  sign, then decimal digits. The result is the value and whether an error is returned.
  A syntax error gives 0; a value out of the range of \<^verbatim>\<open>int64\<close> gives the nearest bound
  together with the error.
\<close>

definition is_digit :: "char \<Rightarrow> bool" where
  "is_digit c = (48 \<le> (of_char c :: nat) \<and> (of_char c :: nat) \<le> 57)"

fun digits_value :: "nat \<Rightarrow> string \<Rightarrow> nat" where
  "digits_value n [] = n"
| "digits_value n (c # cs) = digits_value (n * 10 + ((of_char c :: nat) - 48)) cs"

definition ParseInt :: "string \<Rightarrow> int \<times> bool" where
  "ParseInt s =
     (if s = [] then (0, True)
      else
        let neg = (hd s = CHR ''-'');
            ds = (if hd s = CHR ''+'' \<or> hd s = CHR ''-'' then tl s else s)
        in if ds = [] \<or> \<not> list_all is_digit ds then (0, True)
           else
             let un = int (digits_value 0 ds)
             in if \<not> neg \<and> un \<ge> 2 ^ 63 then (2 ^ 63 - 1, True)
                else if neg \<and> un > 2 ^ 63 then (- (2 ^ 63), True)
                else (if neg then - un else un, False))"

definition Atoi :: "string \<Rightarrow> int \<times> bool" where
  "Atoi s = ParseInt s"

subsection \<open>Messages, reactors and the listener\<close>

text \<open>The \<^verbatim>\<open>sqs.Message\<close> received from the queue; an attribute may hold a nil pointer.\<close>

record sqs_Message =
  Body :: string
  MessageId :: string
  ReceiptHandle :: string
  Attributes :: "string \<rightharpoonup> string option"

text \<open>
  The \<^verbatim>\<open>Msg\<close> handed to the reactors. \<open>SQS\<close> tells whether the client pointer is non-nil;
  \<open>M_Id\<close> and \<open>M_ReceiptHandle\<close> are the two fields of the batch entry \<^verbatim>\<open>M\<close>.
\<close>

record Msg =
  SQS :: bool
  B :: string
  M_Id :: string
  M_ReceiptHandle :: string
  MsgURL :: string
  SentTimestamp :: int

text \<open>\<^verbatim>\<open>lib.Msg\<close> is an interface: a value is a \<^verbatim>\<open>*Msg\<close> of this input or something else.\<close>

datatype lib_Msg = SQSMsg Msg | OtherMsg

text \<open>
  What the dispatcher and the health endpoint use of a \<^verbatim>\<open>reactor.Reactor\<close> (package
  reactor is outside the sources): its channel, its match predicate, which returns an
  error or nil (\<^const>\<open>None\<close>), and the instants of its last successful and last failed
  execution. An instant is a number of nanoseconds since Go's zero time.
\<close>

record Reactor =
  Concurrent :: int
  Ch :: nat
  MatchConditions :: "Msg \<Rightarrow> string option"
  GetLastSuccessfullExecution :: int
  GetLastErrorExecution :: int

text \<open>
  Calls that leave the dispatcher, in the order they are issued: a \<^verbatim>\<open>DeleteMessage\<close> on
  the queue (queue URL, receipt handle) and the send of a message on a reactor's
  channel. Each is made inline or handed to a new goroutine by a \<^verbatim>\<open>go\<close> statement.
\<close>

datatype call = DeleteMessage string string | ChanSend nat Msg

datatype mode = Inline | Goroutine

text \<open>
  The fields of \<^verbatim>\<open>sqsListen\<close> that \<^verbatim>\<open>deliver\<close>, \<^verbatim>\<open>addPending\<close>, \<^verbatim>\<open>delete\<close> and \<^verbatim>\<open>Done\<close>
  read or write. \<open>svc\<close> tells whether the client pointer is non-nil. \<open>broadcastCh\<close> holds
  the registered reactors in the order \<^verbatim>\<open>Range\<close> visits them. \<open>effects\<close> is the trace of
  outgoing calls. The semaphore only delays a hand-off and is left out. The pending
  counts are Go \<^verbatim>\<open>int\<close>s that stay far from the bounds of 64 bits: integers here.
\<close>

record sqsListen =
  URL :: string
  svc :: bool
  broadcastCh :: "Reactor list"
  pendings :: "string \<rightharpoonup> int"
  messError :: "string \<rightharpoonup> bool"
  effects :: "(mode \<times> call) list"

text \<open>
  \<^verbatim>\<open>delete\<close>: nothing for a foreign message or a message without client; otherwise one
  \<^verbatim>\<open>DeleteMessage\<close>, whose error is logged and dropped.
\<close>

definition delete_msg :: "mode \<Rightarrow> sqsListen \<Rightarrow> lib_Msg \<Rightarrow> sqsListen" where
  "delete_msg md p v =
     (case v of
        OtherMsg \<Rightarrow> p
      | SQSMsg msg \<Rightarrow>
          if \<not> SQS msg then p
          else p\<lparr>effects := effects p @ [(md, DeleteMessage (MsgURL msg) (M_ReceiptHandle msg))]\<rparr>)"

definition addPending :: "sqsListen \<Rightarrow> lib_Msg \<Rightarrow> sqsListen" where
  "addPending p m =
     (case m of
        OtherMsg \<Rightarrow> p
      | SQSMsg msg \<Rightarrow>
          let id = M_ReceiptHandle msg;
              v = (case pendings p id of Some v \<Rightarrow> v + 1 | None \<Rightarrow> 1)
          in p\<lparr>pendings := (pendings p)(id \<mapsto> v)\<rparr>)"

text \<open>The message \<^verbatim>\<open>deliver\<close> builds, envelope unwrap included.\<close>

definition build_Msg :: "sqsListen \<Rightarrow> sqs_Message \<Rightarrow> json option \<Rightarrow> Msg" where
  "build_Msg p msg parsed =
     (let sentTimestamp =
            (case Attributes msg ''SentTimestamp'' of
               Some (Some timestamp) \<Rightarrow> fst (ParseInt timestamp)
             | _ \<Rightarrow> 0)
      in \<lparr>SQS = svc p, B = unwrap_body (Body msg) parsed, M_Id = MessageId msg,
          M_ReceiptHandle = ReceiptHandle msg, MsgURL = URL p,
          SentTimestamp = sentTimestamp\<rparr>)"

text \<open>
  The \<^verbatim>\<open>Range\<close> over the reactors: the state and the flag \<^verbatim>\<open>atLeastOneValid\<close> are
  threaded through. A reactor whose \<^verbatim>\<open>MatchConditions\<close> returns an error is skipped.
\<close>

fun deliver_Range :: "Msg \<Rightarrow> Reactor list \<Rightarrow> sqsListen \<times> bool \<Rightarrow> sqsListen \<times> bool" where
  "deliver_Range m [] st = st"
| "deliver_Range m (k # ks) (p, atLeastOneValid) =
     (if MatchConditions k m \<noteq> None then deliver_Range m ks (p, atLeastOneValid)
      else
        let p = addPending p (SQSMsg m);
            p = p\<lparr>effects := effects p @ [(Goroutine, ChanSend (Ch k) m)]\<rparr>
        in deliver_Range m ks (p, True))"

definition deliver :: "sqsListen \<Rightarrow> sqs_Message \<Rightarrow> json option \<Rightarrow> sqsListen" where
  "deliver p msg parsed =
     (let m = build_Msg p msg parsed;
          (p', atLeastOneValid) = deliver_Range m (broadcastCh p) (p, False)
      in if \<not> atLeastOneValid then delete_msg Inline p' (SQSMsg m) else p')"

text \<open>\<^verbatim>\<open>Done\<close>, under the lock of the listener.\<close>

definition Done :: "sqsListen \<Rightarrow> lib_Msg \<Rightarrow> bool \<Rightarrow> sqsListen" where
  "Done p m statusOk =
     (case m of
        OtherMsg \<Rightarrow> p
      | SQSMsg msg \<Rightarrow>
          let id = M_ReceiptHandle msg
          in (case pendings p id of
                None \<Rightarrow> p
              | Some v0 \<Rightarrow>
                  let v = v0 - 1;
                      p = p\<lparr>pendings := (pendings p)(id \<mapsto> v)\<rparr>;
                      p = (if \<not> statusOk then p\<lparr>messError := (messError p)(id \<mapsto> True)\<rparr> else p)
                  in if v \<le> 0 then
                       let p = p\<lparr>pendings := (pendings p)(id := None)\<rparr>;
                           hadError = (messError p id \<noteq> None)
                       in if \<not> hadError then delete_msg Goroutine p m else p
                     else p))"

text \<open>
  Sequences of calls. The receive loop is the only caller of \<^verbatim>\<open>deliver\<close> and the
  workers call \<^verbatim>\<open>Done\<close>; a sequence lists the calls in the order they take effect, each
  \<^verbatim>\<open>deliver\<close> taken as one step.
\<close>

datatype event = EvDeliver sqs_Message "json option" | EvDone lib_Msg bool

fun step :: "sqsListen \<Rightarrow> event \<Rightarrow> sqsListen" where
  "step p (EvDeliver msg parsed) = deliver p msg parsed"
| "step p (EvDone m statusOk) = Done p m statusOk"

definition run :: "sqsListen \<Rightarrow> event list \<Rightarrow> sqsListen" where
  "run p es = foldl step p es"

text \<open>The receipt handles passed to \<^verbatim>\<open>DeleteMessage\<close> in a trace, in order.\<close>

fun deleted_handles :: "(mode \<times> call) list \<Rightarrow> string list" where
  "deleted_handles [] = []"
| "deleted_handles ((md, DeleteMessage url rh) # cs) = rh # deleted_handles cs"
| "deleted_handles ((md, ChanSend c m) # cs) = deleted_handles cs"

text \<open>The reactors that accept a message, in \<^verbatim>\<open>Range\<close> order.\<close>

definition accepting :: "sqsListen \<Rightarrow> Msg \<Rightarrow> Reactor list" where
  "accepting p m = filter (\<lambda>k. MatchConditions k m = None) (broadcastCh p)"



section \<open>The health endpoint (package http)\<close>

subsection \<open>Instants and durations\<close>

text \<open>
  A \<^verbatim>\<open>time.Time\<close> is the number of nanoseconds since Go's zero time (January 1 of year 1,
  UTC), so \<^verbatim>\<open>IsZero\<close> is equality with 0. A \<^verbatim>\<open>time.Duration\<close> is an \<^verbatim>\<open>int64\<close> of
  nanoseconds: \<^verbatim>\<open>Sub\<close> saturates at its bounds and the product of two durations wraps.
\<close>

definition IsZero :: "int \<Rightarrow> bool" where
  "IsZero t = (t = 0)"

definition maxDuration :: int where
  "maxDuration = 2 ^ 63 - 1"

definition minDuration :: int where
  "minDuration = - (2 ^ 63)"

definition Sub :: "int \<Rightarrow> int \<Rightarrow> int" where
  "Sub t u =
     (let d = t - u
      in if d > maxDuration then maxDuration else if d < minDuration then minDuration else d)"

definition Since :: "int \<Rightarrow> int \<Rightarrow> int" where
  "Since now t = Sub now t"

definition wrap64 :: "int \<Rightarrow> int" where
  "wrap64 x = (x + 2 ^ 63) mod 2 ^ 64 - 2 ^ 63"

definition Second :: int where
  "Second = 1000000000"

subsection \<open>The handler\<close>





definition defaultHealthySeconds :: int where
  "defaultHealthySeconds = 86400"

text \<open>
  The first lines of \<^verbatim>\<open>health\<close>: \<open>param\<close> is \<^verbatim>\<open>params.ByName("seconds")\<close>, empty on the
  route \<^verbatim>\<open>/ping\<close>. \<^verbatim>\<open>Sprintf("%d", 86400)\<close> is the text \<^verbatim>\<open>86400\<close>.
\<close>

definition health_parsedSeconds :: "string \<Rightarrow> int" where
  "health_parsedSeconds param =
     (let seconds = (if param = [] then ''86400'' else param);
          (parsedSeconds, err) = Atoi seconds
      in if err \<and> seconds \<noteq> [] then defaultHealthySeconds else parsedSeconds)"



text \<open>The threshold the loop compares with: \<^verbatim>\<open>time.Duration(parsedSeconds)*time.Second\<close>.\<close>

definition threshold :: "string \<Rightarrow> int" where
  "threshold param = wrap64 (health_parsedSeconds param * Second)"

section \<open>The reactor log (lib/reactorlog.go)\<close>

subsection \<open>The record and the pool\<close>

text \<open>
  The exported fields of \<^verbatim>\<open>ReactorLog\<close> are what \<^verbatim>\<open>json.Marshal\<close> serialises: a value of
  \<open>log_record\<close> stands for one emitted JSON record. \<open>RID\<close>, \<open>TID\<close> and \<open>Line\<close> are
  \<^verbatim>\<open>uint64\<close>. \<open>Elapse\<close> holds the elapsed \<^verbatim>\<open>time.Duration\<close>, which the code stores
  converted to seconds as a \<^verbatim>\<open>float64\<close>. A log stream is known by a number; \<^const>\<open>None\<close> is
  the nil interface.
\<close>

record log_record =
  Host :: string
  Label :: string
  Pid :: int
  RID :: "64 word"
  TID :: "64 word"
  Line :: "64 word"
  Output :: string
  Status :: string
  Error :: string
  Elapse :: int
  Timestamp :: int

record ReactorLog = log_record +
  st :: int
  w :: string
  logStream :: "nat option"
  initialized :: bool
  buff :: string

definition newLine :: char where
  "newLine = CHR 0x0A"

text \<open>
  \<^verbatim>\<open>reactorLogPool\<close> is a list of released objects. \<^verbatim>\<open>Get\<close> takes the object released
  last, or calls \<^verbatim>\<open>New\<close>, which returns a zero-valued log. A \<^verbatim>\<open>sync.Pool\<close> may hand out
  any released object, or a new one while it holds some: a statement about every pool
  covers each of these choices, the pool being any list.
\<close>

definition pool_New :: ReactorLog where
  "pool_New = \<lparr>Host = [], Label = [], Pid = 0, RID = 0, TID = 0, Line = 0, Output = [],
     Status = [], Error = [], Elapse = 0, Timestamp = 0,
     st = 0, w = [], logStream = None, initialized = False, buff = []\<rparr>"

definition pool_Get :: "ReactorLog list \<Rightarrow> ReactorLog \<times> ReactorLog list" where
  "pool_Get pool = (case pool of [] \<Rightarrow> (pool_New, []) | r # rs \<Rightarrow> (r, rs))"

definition pool_Put :: "ReactorLog list \<Rightarrow> ReactorLog \<Rightarrow> ReactorLog list" where
  "pool_Put pool r = r # pool"

text \<open>\<^verbatim>\<open>Time.Unix\<close>: seconds since 1970, from nanoseconds since the zero time.\<close>

definition Unix :: "int \<Rightarrow> int" where
  "Unix t = t div 1000000000 - 62135596800"

definition NewReactorLog ::
    "ReactorLog list \<Rightarrow> nat option \<Rightarrow> string \<Rightarrow> 64 word \<Rightarrow> 64 word \<Rightarrow> int \<Rightarrow> ReactorLog \<times> ReactorLog list" where
  "NewReactorLog pool ls hostname rid tid now =
     (let (r, pool) = pool_Get pool;
          r = r\<lparr>Host := hostname\<rparr>;
          r = r\<lparr>logStream := ls\<rparr>;
          r = r\<lparr>RID := rid\<rparr>;
          r = r\<lparr>TID := tid\<rparr>;
          r = r\<lparr>Status := []\<rparr>;
          r = r\<lparr>st := now\<rparr>;
          r = r\<lparr>Timestamp := Unix (st r)\<rparr>
      in (r, pool))"

subsection \<open>The methods\<close>

text \<open>
  Every method holds the mutex of the log, so calls are atomic; a method takes the log
  and the records sent so far (each with the stream it went to) and returns both.
  \<^verbatim>\<open>json.Marshal\<close> cannot fail on this struct (strings, integers and a finite float), so
  the error branch of \<^verbatim>\<open>printJSON\<close> is never taken.
\<close>

type_synonym sent = "(nat \<times> log_record) list"

definition printJSON :: "ReactorLog \<times> sent \<Rightarrow> ReactorLog \<times> sent" where
  "printJSON s =
     (let (rl, out) = s;
          rl = rl\<lparr>Output := w rl\<rparr>;
          rl = rl\<lparr>w := []\<rparr>;
          out = (case logStream rl of None \<Rightarrow> out | Some ls \<Rightarrow> out @ [(ls, log_record.truncate rl)]);
          rl = rl\<lparr>Output := []\<rparr>;
          rl = rl\<lparr>Line := Line rl + 1\<rparr>
      in (rl, out))"

fun handleWriteBytes :: "ReactorLog \<times> sent \<Rightarrow> string \<Rightarrow> ReactorLog \<times> sent" where
  "handleWriteBytes s [] = s"
| "handleWriteBytes s (l # b) =
     (if l = newLine then handleWriteBytes (printJSON s) b
      else handleWriteBytes ((fst s)\<lparr>w := w (fst s) @ [l]\<rparr>, snd s) b)"

text \<open>\<^verbatim>\<open>Write\<close> returns the state and the pair (byte count, error); the error is always nil.\<close>

definition Write :: "ReactorLog \<times> sent \<Rightarrow> string \<Rightarrow> (ReactorLog \<times> sent) \<times> (nat \<times> string option)" where
  "Write s b =
     (let (rl, out) = s
      in if \<not> initialized rl then ((rl\<lparr>buff := buff rl @ b\<rparr>, out), (length b, None))
         else
           let s = (if length (buff rl) > 0
                    then (let (rl, out) = handleWriteBytes (rl, out) (buff rl)
                          in (rl\<lparr>buff := []\<rparr>, out))
                    else (rl, out));
               s = handleWriteBytes s b
           in (s, (length b, None)))"

definition Start :: "ReactorLog \<times> sent \<Rightarrow> int \<Rightarrow> string \<Rightarrow> ReactorLog \<times> sent" where
  "Start s pid cmd =
     (let (rl, out) = s;
          rl = rl\<lparr>Pid := pid\<rparr>;
          rl = rl\<lparr>initialized := True\<rparr>;
          rl = rl\<lparr>Status := ''CMD''\<rparr>;
          rl = rl\<lparr>w := w rl @ cmd\<rparr>;
          (rl, out) = printJSON (rl, out)
      in (rl\<lparr>Status := ''RUN''\<rparr>, out))"

definition reset :: "ReactorLog \<Rightarrow> ReactorLog list \<Rightarrow> ReactorLog \<times> ReactorLog list" where
  "reset rl pool =
     (let rl = rl\<lparr>Host := []\<rparr>;
          rl = rl\<lparr>Label := []\<rparr>;
          rl = rl\<lparr>Pid := 0\<rparr>;
          rl = rl\<lparr>RID := 0\<rparr>;
          rl = rl\<lparr>TID := 0\<rparr>;
          rl = rl\<lparr>Line := 0\<rparr>;
          rl = rl\<lparr>Output := []\<rparr>;
          rl = rl\<lparr>Status := []\<rparr>;
          rl = rl\<lparr>Error := []\<rparr>;
          rl = rl\<lparr>Elapse := 0\<rparr>;
          rl = rl\<lparr>Timestamp := 0\<rparr>;
          rl = rl\<lparr>logStream := None\<rparr>;
          rl = rl\<lparr>w := []\<rparr>;
          rl = rl\<lparr>buff := []\<rparr>
      in (rl, pool_Put pool rl))"

text \<open>
  \<^verbatim>\<open>Done\<close> of the log (the name \<open>Done\<close> is taken by the dispatcher): \<open>err\<close> is the message
  of the error or \<^const>\<open>None\<close> for nil, \<open>now\<close> the clock. The result is the released object,
  the records sent and the pool.
\<close>

definition ReactorLog_Done ::
    "ReactorLog \<times> sent \<Rightarrow> string option \<Rightarrow> int \<Rightarrow> ReactorLog list \<Rightarrow> ReactorLog \<times> sent \<times> ReactorLog list" where
  "ReactorLog_Done s err now pool =
     (let (rl, out) = s;
          (rl, out) = (if \<not> initialized rl then handleWriteBytes (rl, out) (buff rl) else (rl, out));
          rl = rl\<lparr>Status := ''END''\<rparr>;
          rl = (case err of None \<Rightarrow> rl | Some e \<Rightarrow> rl\<lparr>Error := e\<rparr>);
          rl = rl\<lparr>Elapse := Sub now (st rl)\<rparr>;
          (rl, out) = printJSON (rl, out);
          (rl, pool) = reset rl pool
      in (rl, out, pool))"

subsection \<open>Executions\<close>

text \<open>
  One execution: the log is created, the worker and the output pipe call \<^verbatim>\<open>Start\<close> and
  \<^verbatim>\<open>Write\<close> in some order, then the worker calls \<^verbatim>\<open>Done\<close>.
\<close>

datatype log_op = OpWrite string | OpStart int string

fun apply_op :: "ReactorLog \<times> sent \<Rightarrow> log_op \<Rightarrow> ReactorLog \<times> sent" where
  "apply_op s (OpWrite b) = fst (Write s b)"
| "apply_op s (OpStart pid cmd) = Start s pid cmd"

definition run_ops :: "ReactorLog \<times> sent \<Rightarrow> log_op list \<Rightarrow> ReactorLog \<times> sent" where
  "run_ops s ops = foldl apply_op s ops"

definition execution ::
    "ReactorLog list \<Rightarrow> sent \<Rightarrow> nat option \<Rightarrow> string \<Rightarrow> 64 word \<Rightarrow> 64 word \<Rightarrow> int \<Rightarrow>
     log_op list \<Rightarrow> string option \<Rightarrow> int \<Rightarrow> ReactorLog \<times> sent \<times> ReactorLog list" where
  "execution pool out ls hostname rid tid t0 ops err t1 =
     (let (rl, pool) = NewReactorLog pool ls hostname rid tid t0
      in ReactorLog_Done (run_ops (rl, out) ops) err t1 pool)"

section \<open>Notions used to state the properties\<close>

subsection \<open>Dispatcher\<close>

text \<open>\<open>pend_add pm rh n\<close>: the pending map after \<open>n\<close> calls of \<^verbatim>\<open>addPending\<close> for handle \<open>rh\<close>.\<close>

definition pend_add :: "(string \<rightharpoonup> int) \<Rightarrow> string \<Rightarrow> nat \<Rightarrow> (string \<rightharpoonup> int)" where
  "pend_add pm rh n =
     (if n = 0 then pm else pm(rh \<mapsto> (case pm rh of Some v \<Rightarrow> v | None \<Rightarrow> 0) + int n))"




text \<open>Sample data: two reactors, a listener as \<^verbatim>\<open>newSQSListen\<close> leaves it, two messages.\<close>

definition reactor_any :: Reactor where
  "reactor_any = \<lparr>Concurrent = 1, Ch = 0, MatchConditions = (\<lambda>m. None),
     GetLastSuccessfullExecution = 0, GetLastErrorExecution = 0\<rparr>"

definition reactor_never :: Reactor where
  "reactor_never = \<lparr>Concurrent = 1, Ch = 1, MatchConditions = (\<lambda>m. Some ''no match''),
     GetLastSuccessfullExecution = 0, GetLastErrorExecution = 0\<rparr>"

definition listener0 :: "Reactor list \<Rightarrow> sqsListen" where
  "listener0 rs = \<lparr>URL = ''queue'', svc = True, broadcastCh = rs,
     pendings = Map.empty, messError = Map.empty, effects = []\<rparr>"

definition message_h1 :: sqs_Message where
  "message_h1 = \<lparr>Body = ''hello'', MessageId = ''a'', ReceiptHandle = ''h1'', Attributes = Map.empty\<rparr>"


definition msg_h1 :: Msg where
  "msg_h1 = build_Msg (listener0 [reactor_any]) message_h1 None"

subsection \<open>Health\<close>

definition never_executed :: "Reactor \<Rightarrow> bool" where
  "never_executed r = (IsZero (GetLastSuccessfullExecution r) \<and> IsZero (GetLastErrorExecution r))"


subsection \<open>Reactor log\<close>

text \<open>
  What the loop of \<^verbatim>\<open>handleWriteBytes\<close> computes, as a function of the accumulator and
  the bytes: the lines completed by a newline, and the fragment left in the accumulator.
\<close>

fun split_lines :: "string \<Rightarrow> string \<Rightarrow> string list \<times> string" where
  "split_lines acc [] = ([], acc)"
| "split_lines acc (c # cs) =
     (if c = newLine then (acc # fst (split_lines [] cs), snd (split_lines [] cs))
      else split_lines (acc @ [c]) cs)"

text \<open>Records that differ from \<open>t\<close> in \<open>Output\<close> and \<open>Line\<close> only: one per line, counted from \<open>n\<close>.\<close>

fun numbered :: "log_record \<Rightarrow> 64 word \<Rightarrow> string list \<Rightarrow> log_record list" where
  "numbered t n [] = []"
| "numbered t n (l # ls) = t\<lparr>Line := n, Output := l\<rparr> # numbered t (n + 1) ls"

definition to_stream :: "nat option \<Rightarrow> log_record list \<Rightarrow> sent" where
  "to_stream ls recs = (case ls of None \<Rightarrow> [] | Some s \<Rightarrow> map (Pair s) recs)"

text \<open>The log after \<^verbatim>\<open>handleWriteBytes\<close> completed the lines \<open>ls\<close> and kept the fragment \<open>t\<close>.\<close>

definition after_lines :: "ReactorLog \<Rightarrow> string list \<Rightarrow> string \<Rightarrow> ReactorLog" where
  "after_lines rl ls t =
     (if ls = [] then rl\<lparr>w := t\<rparr>
      else rl\<lparr>Output := [], w := t, Line := Line rl + of_nat (length ls)\<rparr>)"

text \<open>The exported fields of a log but \<open>Line\<close> and \<open>Output\<close>, and those of its final record.\<close>

definition tmpl :: "ReactorLog \<Rightarrow> log_record" where
  "tmpl rl = (log_record.truncate rl)\<lparr>Line := 0, Output := []\<rparr>"

definition end_tmpl :: "ReactorLog \<Rightarrow> string option \<Rightarrow> int \<Rightarrow> log_record" where
  "end_tmpl rl err now =
     (case err of
        None \<Rightarrow> (tmpl rl)\<lparr>Status := ''END'', Elapse := Sub now (st rl)\<rparr>
      | Some e \<Rightarrow> (tmpl rl)\<lparr>Status := ''END'', Error := e, Elapse := Sub now (st rl)\<rparr>)"

definition sent_of :: "ReactorLog \<times> sent \<times> ReactorLog list \<Rightarrow> sent" where
  "sent_of x = fst (snd x)"

text \<open>What \<^verbatim>\<open>reset\<close> establishes, and \<^verbatim>\<open>New\<close> too: empty buffers and line counter 0.\<close>

definition released :: "ReactorLog \<Rightarrow> bool" where
  "released r = (w r = [] \<and> buff r = [] \<and> Line r = 0)"

text \<open>The optional \<^verbatim>\<open>Start\<close> of an execution: its process id and command line.\<close>

fun start_ops :: "(int \<times> string) option \<Rightarrow> log_op list" where
  "start_ops None = []"
| "start_ops (Some (pid, cmd)) = [OpStart pid cmd]"

text \<open>The pool after one execution that called \<^verbatim>\<open>Start\<close>.\<close>

definition recycled_pool :: "ReactorLog list" where
  "recycled_pool = snd (snd (execution [] [] (Some 0) ''host'' 1 1 7 [OpStart 42 ''run.sh''] None 9))"

section \<open>Properties of the dispatcher\<close>

subsection \<open>The envelope unwrap\<close>




text \<open>A string member that starts and ends with a quote keeps one quote at each end.\<close>

lemma unwrap_quoted_payload:
  \<open>unwrap_body raw (Some (JObject [(''Message'', JString ''"payload"'')])) = ''"payload"''\<close>
  by (simp add: unwrap_body_def gabs_Exists_def gabs_String_def quoted_def escape_byte_def
      dquote_def backslash_def TrimPrefix_def TrimSuffix_def)

subsection \<open>One call of \<^verbatim>\<open>deliver\<close>\<close>

lemma deliver_Range_eq:
  "deliver_Range m ks (p, a) =
     (p\<lparr>pendings := pend_add (pendings p) (M_ReceiptHandle m)
                       (length (filter (\<lambda>k. MatchConditions k m = None) ks)),
        effects := effects p @ map (\<lambda>k. (Goroutine, ChanSend (Ch k) m))
                                   (filter (\<lambda>k. MatchConditions k m = None) ks)\<rparr>,
      a \<or> filter (\<lambda>k. MatchConditions k m = None) ks \<noteq> [])"
proof (induction ks arbitrary: p a)
  case Nil
  then show ?case by (simp add: pend_add_def)
next
  case (Cons k ks)
  show ?case
  proof (cases "MatchConditions k m")
    case None
    then show ?thesis
      by (auto simp add: Cons.IH Let_def addPending_def pend_add_def fun_eq_iff
            intro!: sqsListen.equality split: option.splits)
  next
    case (Some e)
    then show ?thesis by (simp add: Cons.IH)
  qed
qed



lemma build_Msg_fields:
  "M_ReceiptHandle (build_Msg p msg parsed) = ReceiptHandle msg"
  "SQS (build_Msg p msg parsed) = svc p"
  "MsgURL (build_Msg p msg parsed) = URL p"
  by (simp_all add: build_Msg_def Let_def)

lemma deliver_none_accepting:
  assumes "svc p" and "accepting p (build_Msg p msg parsed) = []"
  shows "deliver p msg parsed =
           p\<lparr>effects := effects p @ [(Inline, DeleteMessage (URL p) (ReceiptHandle msg))]\<rparr>"
  using assms
  by (simp add: deliver_def deliver_Range_eq delete_msg_def Let_def accepting_def pend_add_def
      build_Msg_fields)

text \<open>
  Claim C9. A message that no registered reactor accepts is deleted from the queue inside
  \<^verbatim>\<open>deliver\<close>, inline, and the pending counts and the error marks are as before.
\<close>

theorem deliver_unmatched_deleted_at_once:
  assumes "svc p" and "accepting p (build_Msg p msg parsed) = []"
  shows "effects (deliver p msg parsed)
           = effects p @ [(Inline, DeleteMessage (URL p) (ReceiptHandle msg))]
         \<and> pendings (deliver p msg parsed) = pendings p
         \<and> messError (deliver p msg parsed) = messError p"
proof -
  have "deliver p msg parsed =
          p\<lparr>effects := effects p @ [(Inline, DeleteMessage (URL p) (ReceiptHandle msg))]\<rparr>"
    using assms by (rule deliver_none_accepting)
  then show ?thesis
    by simp
qed

text \<open>Witness for C9: the only reactor rejects every message.\<close>

theorem deliver_unmatched_deleted_at_once_witness:
  "effects (deliver (listener0 [reactor_never]) message_h1 None)
     = [(Inline, DeleteMessage ''queue'' ''h1'')]"
  using deliver_unmatched_deleted_at_once [of "listener0 [reactor_never]" message_h1 None]
  by (simp add: listener0_def reactor_never_def message_h1_def accepting_def)



subsection \<open>One call of \<^verbatim>\<open>Done\<close>\<close>

text \<open>
  Claim C10. \<^verbatim>\<open>Done\<close> for a message whose receipt handle is not a key of the pending map
  changes nothing, whatever its flag: the pending counts, the error marks and the trace
  of queue calls are as before.
\<close>

theorem Done_unknown_handle_unchanged:
  assumes "M_ReceiptHandle msg \<notin> dom (pendings p)"
  shows "Done p (SQSMsg msg) statusOk = p"
  using assms by (simp add: Done_def dom_def)

text \<open>Witness for C10: handle h2 is pending, \<^verbatim>\<open>Done\<close> reports a failure for handle h1.\<close>

theorem Done_unknown_handle_unchanged_witness:
  "Done ((listener0 [reactor_any])\<lparr>pendings := [''h2'' \<mapsto> 1]\<rparr>) (SQSMsg msg_h1) False
     = (listener0 [reactor_any])\<lparr>pendings := [''h2'' \<mapsto> 1]\<rparr>"
  using Done_unknown_handle_unchanged
    [of msg_h1 "(listener0 [reactor_any])\<lparr>pendings := [''h2'' \<mapsto> 1]\<rparr>" False]
  by (simp add: listener0_def msg_h1_def build_Msg_def message_h1_def)




lemma Done_last_reference:
  assumes "pendings p (M_ReceiptHandle msg) = Some c" and "c - 1 \<le> 0" and "SQS msg"
  shows "Done p (SQSMsg msg) statusOk =
           p\<lparr>pendings := (pendings p)(M_ReceiptHandle msg := None),
             messError := (if statusOk then messError p
                           else (messError p)(M_ReceiptHandle msg \<mapsto> True)),
             effects := effects p @
               (if statusOk \<and> messError p (M_ReceiptHandle msg) = None
                then [(Goroutine, DeleteMessage (MsgURL msg) (M_ReceiptHandle msg))] else [])\<rparr>"
  using assms by (simp add: Done_def delete_msg_def Let_def)

lemmas sqs_eval = run_def deliver_def build_Msg_def unwrap_body_def addPending_def Done_def
  delete_msg_def listener0_def reactor_any_def reactor_never_def message_h1_def msg_h1_def Let_def

text \<open>
  Claim C2, evaluated on the code. One reactor accepts the message with handle h1 and
  reports a failure: the handle leaves the pending map and nothing is deleted, but its
  error mark is still set afterwards, since \<^verbatim>\<open>Done\<close> reads the mark and never removes it.
  When the same handle is received again and its reactor succeeds, the stale mark keeps
  the message from being deleted.
\<close>

theorem errored_mark_never_removed:
  "pendings (run (listener0 [reactor_any])
       [EvDeliver message_h1 None, EvDone (SQSMsg msg_h1) False]) ''h1'' = None
   \<and> messError (run (listener0 [reactor_any])
       [EvDeliver message_h1 None, EvDone (SQSMsg msg_h1) False]) ''h1'' = Some True
   \<and> deleted_handles (effects (run (listener0 [reactor_any])
        [EvDeliver message_h1 None, EvDone (SQSMsg msg_h1) False,
         EvDeliver message_h1 None, EvDone (SQSMsg msg_h1) True])) = []"
  by (simp add: sqs_eval)

subsection \<open>Sequences of calls\<close>












text \<open>Two reactors accept, one fails: the handle is not deleted.\<close>

lemma two_reactors_one_fails:
  "deleted_handles (effects (run (listener0 [reactor_any, reactor_any])
      [EvDeliver message_h1 None, EvDone (SQSMsg msg_h1) True, EvDone (SQSMsg msg_h1) False])) = []"
  by (simp add: sqs_eval)

section \<open>Properties of the health endpoint\<close>






lemmas health_eval = maxDuration_def minDuration_def Since_def Sub_def IsZero_def threshold_def
  health_parsedSeconds_def Atoi_def ParseInt_def is_digit_def Let_def defaultHealthySeconds_def
  wrap64_def Second_def never_executed_def



text \<open>The parameter: absent or malformed it is 86400 seconds; a large one wraps around.\<close>

lemma health_parsedSeconds_examples:
  "health_parsedSeconds [] = 86400"
  "health_parsedSeconds ''12'' = 12"
  "health_parsedSeconds ''12a'' = 86400"
  "threshold ''9223372037'' = - 9223372036709551616"
  by (simp_all add: health_eval)

section \<open>Properties of the reactor log\<close>

subsection \<open>Lines and records\<close>

lemma numbered_Output [simp]: "numbered (t\<lparr>Output := x\<rparr>) n ls = numbered t n ls"
  by (induction ls arbitrary: n) simp_all

lemma numbered_Line [simp]: "numbered (t\<lparr>Line := x\<rparr>) n ls = numbered t n ls"
  by (induction ls arbitrary: n) simp_all

lemma numbered_append:
  "numbered t n (l1 @ l2) = numbered t n l1 @ numbered t (n + of_nat (length l1)) l2"
  by (induction l1 arbitrary: n) (simp_all add: add.assoc)

lemma length_numbered [simp]: "length (numbered t n ls) = length ls"
  by (induction ls arbitrary: n) simp_all

lemma numbered_Status: "map Status (numbered t n ls) = replicate (length ls) (Status t)"
  by (induction ls arbitrary: n) simp_all


lemma numbered_Lines:
  "map Line (numbered t (of_nat k) ls) = map of_nat [k..<k + length ls]"
proof (induction ls arbitrary: k)
  case Nil
  then show ?case by simp
next
  case (Cons l ls)
  have a: "numbered t (of_nat k) (l # ls)
      = t\<lparr>Line := of_nat k, Output := l\<rparr> # numbered t (of_nat (Suc k)) ls"
    by (simp add: add.commute)
  have b: "[k..<k + length (l # ls)] = k # [Suc k..<Suc k + length ls]"
    using upt_conv_Cons [of k "k + Suc (length ls)"] by simp
  show ?case
    unfolding a b using Cons.IH [of "Suc k"] by simp
qed

lemma unat_upt:
  assumes "m \<le> 2 ^ 64"
  shows "map (\<lambda>i. unat (of_nat i :: 64 word)) [k..<m] = [k..<m]"
proof -
  have "unat (of_nat i :: 64 word) = i" if "i \<in> set [k..<m]" for i
    using that assms by (intro of_nat_inverse [OF refl]) simp
  then show ?thesis
    by (intro map_idI) simp
qed

lemma split_lines_append:
  "split_lines acc (b1 @ b2) =
     (fst (split_lines acc b1) @ fst (split_lines (snd (split_lines acc b1)) b2),
      snd (split_lines (snd (split_lines acc b1)) b2))"
  by (induction b1 arbitrary: acc) simp_all

lemma split_lines_length: "length (fst (split_lines acc b)) \<le> length b"
  by (induction b arbitrary: acc) (simp_all add: le_SucI)


lemma to_stream_simps [simp]:
  "to_stream ls [] = []"
  "to_stream ls (xs @ ys) = to_stream ls xs @ to_stream ls ys"
  by (simp_all add: to_stream_def split: option.splits)

lemma to_stream_Some: "to_stream (Some s) recs = map (Pair s) recs"
  by (simp add: to_stream_def)

subsection \<open>The methods, as functions of the lines written\<close>

lemma printJSON_eq:
  "printJSON (rl, out) =
     (rl\<lparr>Output := [], w := [], Line := Line rl + 1\<rparr>,
      out @ to_stream (logStream rl) (numbered (log_record.truncate rl) (Line rl) [w rl]))"
  by (simp add: printJSON_def to_stream_def log_record.truncate_def ReactorLog.defs
      split: option.splits)

lemma handleWriteBytes_eq:
  "handleWriteBytes (rl, out) b =
     (after_lines rl (fst (split_lines (w rl) b)) (snd (split_lines (w rl) b)),
      out @ to_stream (logStream rl)
              (numbered (log_record.truncate rl) (Line rl) (fst (split_lines (w rl) b))))"
proof (induction b arbitrary: rl out)
  case Nil
  then show ?case by (simp add: after_lines_def)
next
  case (Cons c b)
  show ?case
  proof (cases "c = newLine")
    case True
    have tr: "log_record.truncate (rl\<lparr>Output := [], w := [], Line := Line rl + 1\<rparr>)
              = (log_record.truncate rl)\<lparr>Output := [], Line := Line rl + 1\<rparr>"
      by (simp add: log_record.truncate_def ReactorLog.defs)
    have ln: "Line (log_record.truncate rl) = Line rl"
      by (simp add: log_record.truncate_def ReactorLog.defs)
    show ?thesis
      using True
      by (simp add: printJSON_eq Cons.IH tr ln after_lines_def add.assoc)
         (simp add: to_stream_def split: option.splits)
  next
    case False
    have tr: "log_record.truncate (rl\<lparr>w := w rl @ [c]\<rparr>) = log_record.truncate rl"
      by (simp add: log_record.truncate_def ReactorLog.defs)
    show ?thesis
      using False by (simp add: Cons.IH tr after_lines_def)
  qed
qed

lemma numbered_tmpl: "numbered (log_record.truncate rl) n ls = numbered (tmpl rl) n ls"
  by (simp add: tmpl_def)

lemma tmpl_after_lines [simp]: "tmpl (after_lines rl ls t) = tmpl rl"
  by (simp add: tmpl_def after_lines_def log_record.truncate_def ReactorLog.defs)

lemma after_lines_fields [simp]:
  "initialized (after_lines rl ls t) = initialized rl"
  "buff (after_lines rl ls t) = buff rl"
  "logStream (after_lines rl ls t) = logStream rl"
  "st (after_lines rl ls t) = st rl"
  "w (after_lines rl ls t) = t"
  "Line (after_lines rl ls t) = Line rl + of_nat (length ls)"
  by (simp_all add: after_lines_def)

lemma tmpl_updates [simp]:
  "tmpl (rl\<lparr>buff := b\<rparr>) = tmpl rl"
  "tmpl (rl\<lparr>w := x\<rparr>) = tmpl rl"
  "tmpl (rl\<lparr>initialized := i\<rparr>) = tmpl rl"
  "tmpl (rl\<lparr>Output := x\<rparr>) = tmpl rl"
  "tmpl (rl\<lparr>Line := n\<rparr>) = tmpl rl"
  "tmpl (rl\<lparr>Status := s\<rparr>) = (tmpl rl)\<lparr>Status := s\<rparr>"
  "tmpl (rl\<lparr>Pid := p\<rparr>) = (tmpl rl)\<lparr>Pid := p\<rparr>"
  "tmpl (rl\<lparr>Error := e\<rparr>) = (tmpl rl)\<lparr>Error := e\<rparr>"
  "tmpl (rl\<lparr>Elapse := d\<rparr>) = (tmpl rl)\<lparr>Elapse := d\<rparr>"
  by (simp_all add: tmpl_def log_record.truncate_def ReactorLog.defs)

lemma Status_tmpl: "Status (tmpl rl) = Status rl"
  by (simp add: tmpl_def log_record.truncate_def ReactorLog.defs)

lemma handleWriteBytes_tmpl:
  "handleWriteBytes (rl, out) b =
     (after_lines rl (fst (split_lines (w rl) b)) (snd (split_lines (w rl) b)),
      out @ to_stream (logStream rl) (numbered (tmpl rl) (Line rl) (fst (split_lines (w rl) b))))"
  by (simp add: handleWriteBytes_eq numbered_tmpl)

lemma printJSON_tmpl:
  "printJSON (rl, out) =
     (rl\<lparr>Output := [], w := [], Line := Line rl + 1\<rparr>,
      out @ to_stream (logStream rl) (numbered (tmpl rl) (Line rl) [w rl]))"
  by (simp only: printJSON_eq numbered_tmpl)

lemma after_lines_buff: "after_lines (rl\<lparr>buff := x\<rparr>) ls t = (after_lines rl ls t)\<lparr>buff := x\<rparr>"
  by (simp add: after_lines_def)

lemma after_lines_after_lines:
  "after_lines (after_lines rl l1 t1) l2 t2 = after_lines rl (l1 @ l2) t2"
  by (simp add: after_lines_def add.assoc)

text \<open>Before \<^verbatim>\<open>Start\<close> on a log whose flag is clear, \<^verbatim>\<open>Write\<close> stages the bytes and sends nothing.\<close>

lemma Write_uninit:
  "\<not> initialized rl \<Longrightarrow> Write (rl, out) b = ((rl\<lparr>buff := buff rl @ b\<rparr>, out), (length b, None))"
  by (simp add: Write_def)

text \<open>Once the flag is set, the staged bytes and the new ones are scanned together.\<close>

lemma Write_init:
  assumes "initialized rl"
  shows "Write (rl, out) b =
     (((after_lines rl (fst (split_lines (w rl) (buff rl @ b)))
                       (snd (split_lines (w rl) (buff rl @ b))))\<lparr>buff := []\<rparr>,
       out @ to_stream (logStream rl)
               (numbered (tmpl rl) (Line rl) (fst (split_lines (w rl) (buff rl @ b))))),
      (length b, None))"
proof (cases "buff rl = []")
  case True
  then have "rl\<lparr>buff := []\<rparr> = rl" by simp
  then have "(after_lines rl (fst (split_lines (w rl) b)) (snd (split_lines (w rl) b)))\<lparr>buff := []\<rparr>
      = after_lines rl (fst (split_lines (w rl) b)) (snd (split_lines (w rl) b))"
    by (metis after_lines_buff)
  then show ?thesis
    using assms True by (simp add: Write_def handleWriteBytes_tmpl)
next
  case False
  then show ?thesis
    using assms
    by (simp add: Write_def handleWriteBytes_tmpl split_lines_append after_lines_buff
        after_lines_after_lines numbered_append)
qed

lemma Write_result: "snd (Write s b) = (length b, None)"
  by (cases s) (simp add: Write_def Let_def)

lemma run_ops_Nil [simp]: "run_ops s [] = s"
  by (simp add: run_ops_def)

lemma run_ops_Cons [simp]: "run_ops s (x # xs) = run_ops (apply_op s x) xs"
  by (simp add: run_ops_def)

lemma run_ops_append: "run_ops s (xs @ ys) = run_ops (run_ops s xs) ys"
  by (simp add: run_ops_def)

lemma writes_uninit:
  "\<not> initialized rl \<Longrightarrow>
   run_ops (rl, out) (map OpWrite ws) = (rl\<lparr>buff := buff rl @ concat ws\<rparr>, out)"
  by (induction ws arbitrary: rl) (simp_all add: Write_uninit)

lemma writes_init:
  assumes "initialized rl" and "ws \<noteq> []"
  shows "run_ops (rl, out) (map OpWrite ws) =
     ((after_lines rl (fst (split_lines (w rl) (buff rl @ concat ws)))
                      (snd (split_lines (w rl) (buff rl @ concat ws))))\<lparr>buff := []\<rparr>,
      out @ to_stream (logStream rl)
              (numbered (tmpl rl) (Line rl) (fst (split_lines (w rl) (buff rl @ concat ws)))))"
  using assms
proof (induction ws arbitrary: rl out)
  case Nil
  then show ?case by simp
next
  case (Cons b ws)
  show ?case
  proof (cases "ws = []")
    case True
    then show ?thesis
      using Cons.prems(1) by (simp add: Write_init)
  next
    case False
    let ?L1 = "fst (split_lines (w rl) (buff rl @ b))"
    let ?T1 = "snd (split_lines (w rl) (buff rl @ b))"
    let ?rl1 = "(after_lines rl ?L1 ?T1)\<lparr>buff := []\<rparr>"
    have init1: "initialized ?rl1" using Cons.prems(1) by simp
    have sp: "split_lines (w rl) (buff rl @ b @ concat ws)
        = (?L1 @ fst (split_lines ?T1 (concat ws)), snd (split_lines ?T1 (concat ws)))"
      using split_lines_append [of "w rl" "buff rl @ b" "concat ws"] by simp
    show ?thesis
      using Cons.prems(1)
      by (simp add: Write_init Cons.IH [OF init1 False] sp after_lines_buff
          after_lines_after_lines numbered_append)
  qed
qed

lemma Start_eq:
  "Start (rl, out) pid cmd =
     (rl\<lparr>Pid := pid, Output := [], Line := Line rl + 1, Status := ''RUN'', w := [],
         initialized := True\<rparr>,
      out @ to_stream (logStream rl)
              (numbered ((tmpl rl)\<lparr>Pid := pid, Status := ''CMD''\<rparr>) (Line rl) [w rl @ cmd]))"
  by (simp add: Start_def printJSON_tmpl)

lemma end_tmpl_cong:
  "tmpl rl' = tmpl rl \<Longrightarrow> st rl' = st rl \<Longrightarrow> end_tmpl rl' err now = end_tmpl rl err now"
  by (cases err) (simp_all add: end_tmpl_def)

lemma end_tmpl_after_lines [simp]:
  "end_tmpl (after_lines rl ls t) err now = end_tmpl rl err now"
  by (rule end_tmpl_cong) simp_all

lemma end_tmpl_buff [simp]:
  "end_tmpl (rl\<lparr>buff := x\<rparr>) err now = end_tmpl rl err now"
  by (rule end_tmpl_cong) simp_all

lemma Status_end_tmpl [simp]: "Status (end_tmpl rl err now) = ''END''"
  by (cases err) (simp_all add: end_tmpl_def)

lemma Done_init:
  assumes "initialized rl"
  shows "sent_of (ReactorLog_Done (rl, out) err now pool) =
           out @ to_stream (logStream rl) (numbered (end_tmpl rl err now) (Line rl) [w rl])"
  using assms
  by (cases err)
     (simp_all add: ReactorLog_Done_def sent_of_def printJSON_tmpl reset_def end_tmpl_def Let_def)

lemma Done_uninit:
  assumes "\<not> initialized rl"
  shows "sent_of (ReactorLog_Done (rl, out) err now pool) =
           out @ to_stream (logStream rl)
             (numbered (tmpl rl) (Line rl) (fst (split_lines (w rl) (buff rl))) @
              numbered (end_tmpl rl err now)
                (Line rl + of_nat (length (fst (split_lines (w rl) (buff rl)))))
                [snd (split_lines (w rl) (buff rl))])"
  using assms
  by (cases err)
     (simp_all add: ReactorLog_Done_def sent_of_def handleWriteBytes_tmpl printJSON_tmpl reset_def
        end_tmpl_def Let_def)

lemma NewReactorLog_fields:
  "initialized (fst (NewReactorLog pool ls host rid tid t0)) = initialized (fst (pool_Get pool))"
  "w (fst (NewReactorLog pool ls host rid tid t0)) = w (fst (pool_Get pool))"
  "buff (fst (NewReactorLog pool ls host rid tid t0)) = buff (fst (pool_Get pool))"
  "Line (fst (NewReactorLog pool ls host rid tid t0)) = Line (fst (pool_Get pool))"
  "logStream (fst (NewReactorLog pool ls host rid tid t0)) = ls"
  "Status (fst (NewReactorLog pool ls host rid tid t0)) = []"
  by (simp_all add: NewReactorLog_def split: prod.splits)

lemma execution_eq:
  "execution pool out ls host rid tid t0 ops err t1 =
     ReactorLog_Done (run_ops (fst (NewReactorLog pool ls host rid tid t0), out) ops) err t1
       (snd (NewReactorLog pool ls host rid tid t0))"
  by (simp add: execution_def split: prod.splits)

subsection \<open>The pool\<close>

lemma released_New: "released pool_New" "\<not> initialized pool_New"
  by (simp_all add: released_def pool_New_def)

lemma released_Get: "list_all released pool \<Longrightarrow> released (fst (pool_Get pool))"
  by (cases pool) (simp_all add: pool_Get_def released_def pool_New_def)

text \<open>\<^verbatim>\<open>reset\<close> clears the buffers and the counter; the flag and the start instant it leaves.\<close>

lemma reset_fields:
  "released (fst (reset rl pool))"
  "initialized (fst (reset rl pool)) = initialized rl"
  "st (fst (reset rl pool)) = st rl"
  "snd (reset rl pool) = fst (reset rl pool) # pool"
  by (simp_all add: reset_def released_def pool_Put_def Let_def)

lemma Done_pool:
  "list_all released pool \<Longrightarrow> list_all released (snd (snd (ReactorLog_Done s err now pool)))"
  by (cases s) (simp add: ReactorLog_Done_def reset_def released_def pool_Put_def Let_def
      split: prod.splits)

lemma execution_pool:
  "list_all released pool \<Longrightarrow>
   list_all released (snd (snd (execution pool out ls host rid tid t0 ops err t1)))"
  by (cases pool) (simp_all add: execution_eq Done_pool NewReactorLog_def pool_Get_def)

lemmas log_eval = execution_def NewReactorLog_def pool_Get_def pool_New_def pool_Put_def run_ops_def
  Write_def Start_def printJSON_def ReactorLog_Done_def reset_def sent_of_def Unix_def Sub_def
  maxDuration_def minDuration_def newLine_def log_record.truncate_def ReactorLog.defs Let_def

subsection \<open>Whole executions\<close>

text \<open>An execution without \<^verbatim>\<open>Start\<close>, whatever the flag of the pooled object.\<close>

lemma unstarted_sent:
  assumes "w (fst (pool_Get pool)) = []" and "buff (fst (pool_Get pool)) = []"
  shows "\<exists>T Te. Status T = [] \<and> Status Te = ''END'' \<and>
           sent_of (execution pool out ls host rid tid t0 (map OpWrite ws) err t1) =
             out @ to_stream ls
               (numbered T (Line (fst (pool_Get pool))) (fst (split_lines [] (concat ws))) @
                numbered Te (Line (fst (pool_Get pool)) + of_nat (length (fst (split_lines [] (concat ws)))))
                  [snd (split_lines [] (concat ws))])"
proof -
  let ?r = "fst (NewReactorLog pool ls host rid tid t0)"
  let ?L = "fst (split_lines [] (concat ws))"
  let ?T = "snd (split_lines [] (concat ws))"
  have f: "w ?r = []" "buff ?r = []" "Line ?r = Line (fst (pool_Get pool))" "logStream ?r = ls"
    "Status ?r = []"
    using assms by (simp_all add: NewReactorLog_fields)
  have stat: "Status (tmpl ?r) = []" "Status (end_tmpl ?r err t1) = ''END''"
    using f by (simp_all add: Status_tmpl)
  have "sent_of (execution pool out ls host rid tid t0 (map OpWrite ws) err t1) =
             out @ to_stream ls
               (numbered (tmpl ?r) (Line (fst (pool_Get pool))) ?L @
                numbered (end_tmpl ?r err t1) (Line (fst (pool_Get pool)) + of_nat (length ?L)) [?T])"
  proof (cases "initialized ?r")
    case False
    then show ?thesis
      using f by (simp add: execution_eq writes_uninit Done_uninit)
  next
    case True
    show ?thesis
    proof (cases "ws = []")
      case True
      with \<open>initialized ?r\<close> f show ?thesis
        by (simp add: execution_eq Done_init)
    next
      case False
      from False \<open>initialized ?r\<close> f show ?thesis
        by (simp add: execution_eq writes_init Done_init)
    qed
  qed
  with stat show ?thesis by blast
qed

text \<open>An execution with \<^verbatim>\<open>Start\<close> on a pooled object whose flag is clear.\<close>

lemma started_sent:
  assumes "w (fst (pool_Get pool)) = []" and "buff (fst (pool_Get pool)) = []"
    and "\<not> initialized (fst (pool_Get pool))"
  shows "\<exists>Tc Tr Te. Status Tc = ''CMD'' \<and> Status Tr = ''RUN'' \<and> Status Te = ''END'' \<and>
           sent_of (execution pool out ls host rid tid t0
                      (map OpWrite ws1 @ OpStart pid cmd # map OpWrite ws2) err t1) =
             out @ to_stream ls
               (numbered Tc (Line (fst (pool_Get pool))) [cmd] @
                numbered Tr (Line (fst (pool_Get pool)) + 1)
                  (fst (split_lines [] (if ws2 = [] then [] else concat ws1 @ concat ws2))) @
                numbered Te (Line (fst (pool_Get pool)) + 1 +
                    of_nat (length (fst (split_lines [] (if ws2 = [] then [] else concat ws1 @ concat ws2)))))
                  [snd (split_lines [] (if ws2 = [] then [] else concat ws1 @ concat ws2))])"
proof -
  let ?r = "fst (NewReactorLog pool ls host rid tid t0)"
  let ?n = "Line (fst (pool_Get pool))"
  let ?bs = "if ws2 = [] then [] else concat ws1 @ concat ws2"
  let ?L = "fst (split_lines [] ?bs)"
  let ?T = "snd (split_lines [] ?bs)"
  have f: "w ?r = []" "buff ?r = []" "Line ?r = ?n" "logStream ?r = ls" "\<not> initialized ?r"
    using assms by (simp_all add: NewReactorLog_fields)
  let ?r1 = "?r\<lparr>buff := concat ws1\<rparr>"
  let ?r2 = "?r1\<lparr>Pid := pid, Output := [], Line := ?n + 1, Status := ''RUN'', w := [],
                  initialized := True\<rparr>"
  let ?Tc = "(tmpl ?r)\<lparr>Pid := pid, Status := ''CMD''\<rparr>"
  let ?out2 = "out @ to_stream ls (numbered ?Tc ?n [cmd])"
  have s2: "run_ops (?r, out) (map OpWrite ws1 @ [OpStart pid cmd]) = (?r2, ?out2)"
    using f by (simp add: run_ops_append writes_uninit Start_eq)
  have i2: "initialized ?r2" "w ?r2 = []" "buff ?r2 = concat ws1" "Line ?r2 = ?n + 1"
    "logStream ?r2 = ls"
    using f by simp_all
  let ?Tr = "tmpl ?r2"
  let ?Te = "end_tmpl ?r2 err t1"
  have "sent_of (execution pool out ls host rid tid t0
                      (map OpWrite ws1 @ OpStart pid cmd # map OpWrite ws2) err t1) =
          ?out2 @ to_stream ls (numbered ?Tr (?n + 1) ?L @ numbered ?Te (?n + 1 + of_nat (length ?L)) [?T])"
  proof (cases "ws2 = []")
    case True
    have "run_ops (?r, out) (map OpWrite ws1 @ OpStart pid cmd # map OpWrite ws2) = (?r2, ?out2)"
      using s2 True by simp
    then show ?thesis
      using True i2 by (simp add: execution_eq Done_init del: run_ops_Cons)
  next
    case False
    let ?r3 = "(after_lines ?r2 ?L ?T)\<lparr>buff := []\<rparr>"
    have "run_ops (?r, out) (map OpWrite ws1 @ OpStart pid cmd # map OpWrite ws2)
            = run_ops (?r2, ?out2) (map OpWrite ws2)"
      using s2 run_ops_append [of "(?r, out)" "map OpWrite ws1 @ [OpStart pid cmd]" "map OpWrite ws2"]
      by simp
    also have "\<dots> = (?r3, ?out2 @ to_stream ls (numbered ?Tr (?n + 1) ?L))"
      using writes_init [OF i2(1) False, of ?out2] i2 False by simp
    finally show ?thesis
      using i2 False by (simp add: execution_eq Done_init del: run_ops_Cons)
  qed
  moreover have "Status ?Tc = ''CMD''" "Status ?Tr = ''RUN''" "Status ?Te = ''END''"
    by (simp_all add: Status_tmpl)
  ultimately show ?thesis
    by (metis append.assoc to_stream_simps(2))
qed

lemma lines_unstarted:
  "map Line (numbered T 0 L @ numbered Te (0 + of_nat (length L)) [Tl])
     = map of_nat [0..<length L + 1]"
  using numbered_Lines [of T 0 L] numbered_Lines [of Te "length L" "[Tl]"]
  by simp

lemma lines_started:
  "map Line (numbered Tc 0 [c] @ numbered Tr (0 + 1) L @ numbered Te (0 + 1 + of_nat (length L)) [Tl])
     = map of_nat [0..<length L + 2]"
proof -
  have "[0..<length L + 2] = [0..<1] @ [1..<1 + length L] @ [1 + length L..<1 + length L + 1]"
    by (metis (no_types, lifting) One_nat_def Suc_eq_plus1 add.commute add_2_eq_Suc' le_add1
        upt_add_eq_append zero_le)
  then show ?thesis
    using numbered_Lines [of Tc 0 "[c]"] numbered_Lines [of Tr 1 L]
      numbered_Lines [of Te "1 + length L" "[Tl]"]
    by simp
qed

subsection \<open>Writes without \<^verbatim>\<open>Start\<close>\<close>




subsection \<open>The record sequence of an execution\<close>

text \<open>
  Claim C7, as amended. An execution writes, optionally starts, writes again and is done,
  on a log with a log stream taken from a pool of released objects, with fewer than
  \<open>2 ^ 64 - 1\<close> bytes written. The records sent carry the line numbers 0, 1, 2 and so on.
  When \<^verbatim>\<open>Start\<close> is called, on an object whose initialized flag is clear, the statuses
  are one CMD, then any number of RUN, then one END.
\<close>

theorem execution_record_sequence:
  assumes "list_all released pool"
    and "start \<noteq> None \<longrightarrow> \<not> initialized (fst (pool_Get pool))"
    and "length (concat ws1) + length (concat ws2) + 2 \<le> 2 ^ 64"
  shows "\<exists>recs. sent_of (execution pool out (Some s) host rid tid t0
                    (map OpWrite ws1 @ start_ops start @ map OpWrite ws2) err t1)
                  = out @ map (Pair s) recs
       \<and> map (unat \<circ> Line) recs = [0..<length recs]
       \<and> (start \<noteq> None \<longrightarrow> (\<exists>k. map Status recs = ''CMD'' # replicate k ''RUN'' @ [''END'']))"
proof -
  have rel: "w (fst (pool_Get pool)) = []" "buff (fst (pool_Get pool)) = []"
    "Line (fst (pool_Get pool)) = 0"
    using released_Get [OF assms(1)] by (simp_all add: released_def)
  show ?thesis
  proof (cases start)
    case None
    let ?ws = "ws1 @ ws2"
    let ?L = "fst (split_lines [] (concat ?ws))"
    let ?T = "snd (split_lines [] (concat ?ws))"
    from unstarted_sent [OF rel(1,2), of out "Some s" host rid tid t0 ?ws err t1]
    obtain T Te where
      sent: "sent_of (execution pool out (Some s) host rid tid t0 (map OpWrite ?ws) err t1) =
             out @ to_stream (Some s)
               (numbered T 0 ?L @ numbered Te (0 + of_nat (length ?L)) [?T])"
      using rel(3) by auto
    let ?recs = "numbered T 0 ?L @ numbered Te (0 + of_nat (length ?L)) [?T]"
    have "length ?L \<le> length (concat ?ws)"
      by (rule split_lines_length)
    then have small: "length ?L + 1 \<le> 2 ^ 64"
      using assms(3) by simp
    have "map (unat \<circ> Line) ?recs = map unat (map Line ?recs)"
      by simp
    also have "\<dots> = map (\<lambda>i. unat (of_nat i :: 64 word)) [0..<length ?L + 1]"
      unfolding lines_unstarted by (simp add: comp_def)
    also have "\<dots> = [0..<length ?recs]"
      using unat_upt [OF small, of 0] by simp
    finally have lines: "map (unat \<circ> Line) ?recs = [0..<length ?recs]" .
    have ops: "map OpWrite ws1 @ start_ops start @ map OpWrite ws2 = map OpWrite ?ws"
      using None by simp
    have a: "sent_of (execution pool out (Some s) host rid tid t0
                    (map OpWrite ws1 @ start_ops start @ map OpWrite ws2) err t1)
               = out @ map (Pair s) ?recs"
      unfolding ops using sent by (simp only: to_stream_Some)
    have c: "start \<noteq> None \<longrightarrow> (\<exists>k. map Status ?recs = ''CMD'' # replicate k ''RUN'' @ [''END''])"
      using None by simp
    show ?thesis
      by (intro exI [of _ ?recs] conjI a lines c)
  next
    case (Some pc)
    obtain pid cmd where pc: "pc = (pid, cmd)" by (cases pc)
    let ?bs = "if ws2 = [] then [] else concat ws1 @ concat ws2"
    let ?L = "fst (split_lines [] ?bs)"
    let ?T = "snd (split_lines [] ?bs)"
    have fresh: "\<not> initialized (fst (pool_Get pool))"
      using assms(2) Some by simp
    from started_sent [OF rel(1,2) fresh, of out "Some s" host rid tid t0 ws1 pid cmd ws2 err t1]
    obtain Tc Tr Te where stat: "Status Tc = ''CMD''" "Status Tr = ''RUN''" "Status Te = ''END''"
      and sent: "sent_of (execution pool out (Some s) host rid tid t0
                      (map OpWrite ws1 @ OpStart pid cmd # map OpWrite ws2) err t1) =
             out @ to_stream (Some s)
               (numbered Tc 0 [cmd] @ numbered Tr (0 + 1) ?L @
                numbered Te (0 + 1 + of_nat (length ?L)) [?T])"
      using rel(3) by auto
    let ?recs = "numbered Tc 0 [cmd] @ numbered Tr (0 + 1) ?L @
                numbered Te (0 + 1 + of_nat (length ?L)) [?T]"
    have "length ?L \<le> length ?bs"
      by (rule split_lines_length)
    then have small: "length ?L + 2 \<le> 2 ^ 64"
      using assms(3) by (simp split: if_splits)
    have "map (unat \<circ> Line) ?recs = map unat (map Line ?recs)"
      by simp
    also have "\<dots> = map (\<lambda>i. unat (of_nat i :: 64 word)) [0..<length ?L + 2]"
      unfolding lines_started by (simp add: comp_def)
    also have "\<dots> = [0..<length ?recs]"
      using unat_upt [OF small, of 0] by simp
    finally have lines: "map (unat \<circ> Line) ?recs = [0..<length ?recs]" .
    have "map Status ?recs = ''CMD'' # replicate (length ?L) ''RUN'' @ [''END'']"
      using stat by (simp add: numbered_Status)
    then have c: "start \<noteq> None \<longrightarrow> (\<exists>k. map Status ?recs = ''CMD'' # replicate k ''RUN'' @ [''END''])"
      by (intro impI exI [of _ "length ?L"])
    have ops: "map OpWrite ws1 @ start_ops start @ map OpWrite ws2
                 = map OpWrite ws1 @ OpStart pid cmd # map OpWrite ws2"
      using Some pc by simp
    have a: "sent_of (execution pool out (Some s) host rid tid t0
                    (map OpWrite ws1 @ start_ops start @ map OpWrite ws2) err t1)
               = out @ map (Pair s) ?recs"
      unfolding ops using sent by (simp only: to_stream_Some)
    show ?thesis
      by (intro exI [of _ ?recs] conjI a lines c)
  qed
qed

text \<open>
  Witness for C7: output arrives before \<^verbatim>\<open>Start\<close> and after it, on a fresh log with a
  stream.
\<close>

theorem execution_record_sequence_witness:
  "\<exists>recs. sent_of (execution [] [] (Some 0) ''host'' 1 1 0
                    (map OpWrite [''early'' @ [newLine]] @ start_ops (Some (42, ''run.sh''))
                       @ map OpWrite [''l1'' @ [newLine] @ ''l2'' @ [newLine]]) None 5)
                  = map (Pair 0) recs
       \<and> map (unat \<circ> Line) recs = [0..<length recs]
       \<and> (\<exists>k. map Status recs = ''CMD'' # replicate k ''RUN'' @ [''END''])"
  using execution_record_sequence [of "[]" "Some (42, ''run.sh'')" "[''early'' @ [newLine]]"
      "[''l1'' @ [newLine] @ ''l2'' @ [newLine]]" "[]" 0 "''host''" 1 1 0 None 5]
  by (simp add: pool_Get_def pool_New_def)

text \<open>
  Counterexample to C7 as stated: the log is created with a nil log stream, started and
  done. \<^verbatim>\<open>printJSON\<close> sends only to a stream that is not nil, so no record is emitted and
  the sequence has neither its CMD nor its END record.
\<close>

theorem nil_stream_emits_nothing:
  "sent_of (execution [] [] None ''host'' 1 1 0 [OpStart 42 ''run.sh''] None 5) = []"
  by (simp add: log_eval)

text \<open>The first end-to-end scenario: the process prints two lines, split over the writes.\<close>

lemma scenario_single_match:
  "map (\<lambda>x. (unat (Line (snd x)), Status (snd x), Output (snd x)))
     (sent_of (execution [] [] (Some 0) ''host'' 1 1 0
        [OpStart 42 ''run.sh'', OpWrite (''line1'' @ [newLine] @ ''li''), OpWrite (''ne2'' @ [newLine])]
        None 5))
   = [(0, ''CMD'', ''run.sh''), (1, ''RUN'', ''line1''), (2, ''RUN'', ''line2''), (3, ''END'', '''')]"
  by (simp add: log_eval)

subsection \<open>Reuse of a pooled log\<close>

text \<open>
  Claim C6, evaluated on the code. A log is created, started and done. The object that
  \<^verbatim>\<open>Done\<close> releases to the pool still has its initialized flag set, and its start instant:
  \<^verbatim>\<open>reset\<close> assigns neither. So the released object is not the zero value.
\<close>

theorem reset_keeps_initialized:
  "initialized (fst (execution [] [] (Some 0) ''host'' 1 1 7 [OpStart 42 ''run.sh''] None 9))
   \<and> st (fst (execution [] [] (Some 0) ''host'' 1 1 7 [OpStart 42 ''run.sh''] None 9)) = 7
   \<and> recycled_pool = [fst (execution [] [] (Some 0) ''host'' 1 1 7 [OpStart 42 ''run.sh''] None 9)]"
  by (simp add: log_eval recycled_pool_def)

text \<open>
  Claim C4, evaluated on the code. The next log comes from that pool. A \<^verbatim>\<open>Write\<close> of the
  bytes x, newline, made before \<^verbatim>\<open>Start\<close>, emits a record with output x and stages
  nothing.
\<close>

theorem recycled_write_before_Start_emits:
  "map (Output \<circ> snd)
     (snd (fst (Write (fst (NewReactorLog recycled_pool (Some 0) ''host'' 1 2 10), [])
                  (''x'' @ [newLine])))) = [''x'']
   \<and> buff (fst (fst (Write (fst (NewReactorLog recycled_pool (Some 0) ''host'' 1 2 10), [])
                  (''x'' @ [newLine])))) = []"
  by (simp add: log_eval recycled_pool_def)

text \<open>
  On a log whose flag is clear, a \<^verbatim>\<open>Write\<close> before \<^verbatim>\<open>Start\<close> stages the bytes, emits nothing
  and returns the byte count and no error; a \<^verbatim>\<open>Write\<close> returns that pair in every state.
\<close>

lemma Write_before_Start_stages:
  assumes "\<not> initialized (fst (pool_Get pool))"
  shows "Write (fst (NewReactorLog pool ls host rid tid t0), out) b =
           ((fst (NewReactorLog pool ls host rid tid t0)
               \<lparr>buff := buff (fst (NewReactorLog pool ls host rid tid t0)) @ b\<rparr>, out),
            (length b, None))"
  using assms by (simp add: Write_uninit NewReactorLog_fields)

text \<open>
  On the recycled log a whole execution sends a record with empty status before its CMD
  record.
\<close>

lemma recycled_execution_statuses:
  "map (Status \<circ> snd)
     (sent_of (execution recycled_pool [] (Some 0) ''host'' 1 2 10
        [OpWrite (''x'' @ [newLine]), OpStart 43 ''run.sh''] None 12))
   = ['''', ''CMD'', ''END'']"
  by (simp add: log_eval recycled_pool_def)

end
